theory Spec2Isabelle
  imports Main "HOL-Library.Finite_Map" "HOL-Library.Sublist"
    "HOL-Library.List_Lexorder" "HOL-Library.Char_ord"
begin

section \<open>Values of the two scripts\<close>

text \<open>
  Both scripts work on decoded JSON: Python values built from \<open>None\<close>, booleans,
  integers, strings, lists and dictionaries with string keys. After
  \<open>convert_published_date_value\<close> a record also holds a \<open>datetime\<close> object. A timezone
  aware \<open>datetime\<close> is kept as its instant (seconds since the epoch) and its UTC offset.
  JSON floats are left out: no operation below computes with numbers.

  A dictionary is a finite map. Python keeps the insertion order of the keys; the order
  only shows when a dictionary is iterated, and \<open>dict_items\<close> below fixes one enumeration
  (by sorted key) for the loops that iterate a dictionary.
\<close>

datatype datetime = Datetime (timestamp: int) (utcoffset: int)

datatype json =
    JNull
  | JBool bool
  | JNum int
  | JStr string
  | JList "json list"
  | JObj "(string, json) fmap"
  | JDatetime datetime

type_synonym dict = "(string, json) fmap"

text \<open>The exceptions that the modelled code can raise.\<close>

datatype error = TypeError | KeyError | AttributeError | ValueError | IndexError
  | RequestException

text \<open>Sequencing of two computations that may raise: the first exception wins.\<close>

definition and_then :: "error + 'a \<Rightarrow> ('a \<Rightarrow> error + 'b) \<Rightarrow> error + 'b" where
  "and_then r f = (case r of Inl e \<Rightarrow> Inl e | Inr x \<Rightarrow> f x)"

subsection \<open>Python primitives\<close>

text \<open>
  \<open>a == b\<close> on decoded values. It is structural equality except that \<open>bool\<close> is a
  subtype of \<open>int\<close> (\<open>True == 1\<close>), and that two aware datetimes are equal when they
  denote the same instant.
\<close>

function (sequential) py_eq :: "json \<Rightarrow> json \<Rightarrow> bool" where
  "py_eq JNull JNull = True"
| "py_eq (JBool a) (JBool b) = (a = b)"
| "py_eq (JBool a) (JNum n) = (n = (if a then 1 else 0))"
| "py_eq (JNum n) (JBool a) = (n = (if a then 1 else 0))"
| "py_eq (JNum m) (JNum n) = (m = n)"
| "py_eq (JStr s) (JStr t) = (s = t)"
| "py_eq (JList xs) (JList ys) = list_all2 py_eq xs ys"
| "py_eq (JObj a) (JObj b) = fmrel py_eq a b"
| "py_eq (JDatetime c) (JDatetime d) = (timestamp c = timestamp d)"
| "py_eq _ _ = False"
  by pat_completeness auto
termination
proof (relation "measure (\<lambda>(a, b). size a)")
  show "wf (measure (\<lambda>(a, b). size a))"
    by simp
next
  fix xs ys :: "json list" and z yb :: json
  assume "z \<in> set xs"
  then show "((z, yb), (JList xs, JList ys)) \<in> measure (\<lambda>(a, b). size a)"
    by (simp add: less_Suc_eq_le size_list_estimation')
next
  fix a b :: dict and z yb :: json
  assume "z \<in> fmran' a"
  then obtain k where "fmlookup a k = Some z"
    by (auto simp: fmran'_def ran_def)
  then have "(k, z) \<in> fset (fset_of_fmap a)"
    by simp
  then have "Suc (size z) \<le> (\<Sum>x\<in>fset (fset_of_fmap a). Suc (case x of (k, v) \<Rightarrow> size v))"
    using member_le_sum [of "(k, z)" "fset (fset_of_fmap a)"
        "\<lambda>x. Suc (case x of (k, v) \<Rightarrow> size v)"]
    by simp
  then show "((z, yb), (JObj a, JObj b)) \<in> measure (\<lambda>(a, b). size a)"
    by simp
qed

text \<open>\<open>x in xs\<close> for a list \<open>xs\<close>: some element equals \<open>x\<close>.\<close>

definition py_in :: "json \<Rightarrow> json list \<Rightarrow> bool" where
  "py_in x xs = list_ex (\<lambda>item. py_eq item x) xs"

text \<open>The truth value of an object, as \<open>if v:\<close> tests it.\<close>

fun truthy :: "json \<Rightarrow> bool" where
  "truthy JNull = False"
| "truthy (JBool b) = b"
| "truthy (JNum n) = (n \<noteq> 0)"
| "truthy (JStr s) = (s \<noteq> [])"
| "truthy (JList xs) = (xs \<noteq> [])"
| "truthy (JObj m) = (m \<noteq> fmempty)"
| "truthy (JDatetime d) = True"

text \<open>\<open>d.get(key, default)\<close> and \<open>d[key]\<close> on a dictionary.\<close>

definition dict_get :: "dict \<Rightarrow> string \<Rightarrow> json \<Rightarrow> json" where
  "dict_get d key dflt = (case fmlookup d key of None \<Rightarrow> dflt | Some v \<Rightarrow> v)"

definition dict_subscript :: "dict \<Rightarrow> string \<Rightarrow> error + json" where
  "dict_subscript d key = (case fmlookup d key of None \<Rightarrow> Inl KeyError | Some v \<Rightarrow> Inr v)"

text \<open>
  \<open>v[key]\<close> with a string key on any object: a dictionary looks the key up, a list or a
  string refuses a string index, and the other objects are not subscriptable.
\<close>

fun subscript :: "json \<Rightarrow> string \<Rightarrow> error + json" where
  "subscript (JObj d) key = dict_subscript d key"
| "subscript v key = Inl TypeError"

text \<open>\<open>v.get(key, default)\<close> on any object: only a dictionary has the method.\<close>

fun py_get :: "json \<Rightarrow> string \<Rightarrow> json \<Rightarrow> error + json" where
  "py_get (JObj d) key dflt = Inr (dict_get d key dflt)"
| "py_get v key dflt = Inl AttributeError"

text \<open>
  \<open>s in v\<close> for a string \<open>s\<close>: substring test on a string, membership in a list (only
  an equal string is equal to a string), key membership in a dictionary; the other
  objects are not iterable.
\<close>

fun str_in :: "string \<Rightarrow> json \<Rightarrow> error + bool" where
  "str_in s (JStr t) = Inr (sublist s t)"
| "str_in s (JList xs) = Inr (py_in (JStr s) xs)"
| "str_in s (JObj d) = Inr (s |\<in>| fmdom d)"
| "str_in s v = Inl TypeError"

text \<open>The items of a dictionary, enumerated by sorted key.\<close>

definition dict_items :: "dict \<Rightarrow> (string \<times> json) list" where
  "dict_items d = map (\<lambda>k. (k, the (fmlookup d k))) (sorted_list_of_fset (fmdom d))"

text \<open>
  The elements that \<open>for x in v\<close> visits: the elements of a list, the one-character
  strings of a string, the keys of a dictionary.
\<close>

fun py_iter :: "json \<Rightarrow> error + json list" where
  "py_iter (JList xs) = Inr xs"
| "py_iter (JStr s) = Inr (map (\<lambda>c. JStr [c]) s)"
| "py_iter (JObj d) = Inr (map (\<lambda>kv. JStr (fst kv)) (dict_items d))"
| "py_iter v = Inl TypeError"

text \<open>\<open>v.append(x)\<close>: only a list has the method.\<close>

fun py_append :: "json \<Rightarrow> json \<Rightarrow> error + json" where
  "py_append (JList xs) x = Inr (JList (xs @ [x]))"
| "py_append v x = Inl AttributeError"

section \<open>Problem set 10: the Star Wars API\<close>

text \<open>
  \<open>requests.get(url, params, timeout=timeout).json()\<close> is the outside world: a function
  from the URL and the optional query parameters to the decoded body, or to the exception
  of a failed request. Every function that fetches takes it as its first argument.
\<close>

type_synonym requests_get = "json \<Rightarrow> dict option \<Rightarrow> error + json"

text \<open>\<open>if params:\<close> holds for a dictionary that is neither \<open>None\<close> nor empty.\<close>

definition get_swapi_resource :: "requests_get \<Rightarrow> json \<Rightarrow> dict option \<Rightarrow> error + json" where
  "get_swapi_resource requests_get url params =
     (if params \<noteq> None \<and> params \<noteq> Some fmempty then requests_get url params
      else requests_get url None)"

definition get_homeworld :: "requests_get \<Rightarrow> json \<Rightarrow> json \<Rightarrow> error + dict" where
  "get_homeworld requests_get identifier url =
     and_then (str_in ''https://'' identifier) (\<lambda>is_url.
     and_then (if is_url then get_swapi_resource requests_get identifier None
               else get_swapi_resource requests_get url
                      (Some (fmap_of_list [(''search'', identifier)]))) (\<lambda>swapi_result.
     and_then (py_get swapi_result ''name'' (JStr '''')) (\<lambda>name.
     and_then (py_get swapi_result ''diameter'' (JStr '''')) (\<lambda>diameter.
     and_then (py_get swapi_result ''climate'' (JStr '''')) (\<lambda>climate.
     and_then (py_get swapi_result ''terrain'' (JStr '''')) (\<lambda>terrain.
     and_then (py_get swapi_result ''population'' (JStr '''')) (\<lambda>population.
       Inr (fmap_of_list
         [(''name'', name),
          (''diameter'', diameter),
          (''climate'', climate),
          (''terrain'', terrain),
          (''population'', population)]))))))))"

definition create_person :: "requests_get \<Rightarrow> dict \<Rightarrow> json \<Rightarrow> error + dict" where
  "create_person requests_get person url =
     and_then (get_homeworld requests_get (dict_get person ''homeworld'' JNull) url) (\<lambda>homeworld.
       Inr (fmap_of_list
         [(''name'', dict_get person ''name'' (JStr '''')),
          (''height'', dict_get person ''height'' (JStr '''')),
          (''mass'', dict_get person ''mass'' (JStr '''')),
          (''birth_year'', dict_get person ''birth_year'' (JStr '''')),
          (''eye_color'', dict_get person ''eye_color'' (JStr '''')),
          (''homeworld'', JObj homeworld),
          (''dialogue'', JList [])]))"

definition create_starship :: "dict \<Rightarrow> dict" where
  "create_starship starship =
     fmap_of_list
       [(''name'', dict_get starship ''name'' (JStr '''')),
        (''model'', dict_get starship ''model'' (JStr '''')),
        (''passengers'', JList []),
        (''max_atmosphering_speed'', dict_get starship ''max_atmosphering_speed'' (JStr '''')),
        (''length'', dict_get starship ''length'' (JStr ''''))]"

text \<open>
  \<open>board_starship\<close> mutates the starship and returns it; the model returns the updated
  dictionary. \<open>starship[key].append(person)\<close> replaces the list stored under the key by
  the longer one. Values are modelled by value, as decoded JSON gives them: no two keys
  share one list object.
\<close>

fun board_starship :: "dict \<Rightarrow> (json \<times> bool) list \<Rightarrow> error + dict" where
  "board_starship starship [] = Inr starship"
| "board_starship starship ((person, is_intruder) # people) =
     (if is_intruder then
        (if ''intruder'' |\<in>| fmdom starship then
           and_then (py_append (the (fmlookup starship ''intruder'')) person) (\<lambda>bucket.
             board_starship (fmupd ''intruder'' bucket starship) people)
         else board_starship (fmupd ''intruder'' (JList [person]) starship) people)
      else
        (if ''passengers'' |\<in>| fmdom starship then
           and_then (py_append (the (fmlookup starship ''passengers'')) person) (\<lambda>bucket.
             board_starship (fmupd ''passengers'' bucket starship) people)
         else board_starship (fmupd ''passengers'' (JList [person]) starship) people))"

text \<open>
  The expression \<open>get_swapi_resource(url, {"search": query})["results"][0]\<close> that \<open>main\<close>
  evaluates for every search: the caller takes the envelope apart.
\<close>

definition first_item :: "json \<Rightarrow> error + json" where
  "first_item v =
     (case v of
        JList xs \<Rightarrow> (case xs of [] \<Rightarrow> Inl IndexError | x # _ \<Rightarrow> Inr x)
      | JStr s \<Rightarrow> (case s of [] \<Rightarrow> Inl IndexError | c # _ \<Rightarrow> Inr (JStr [c]))
      | JObj d \<Rightarrow> Inl KeyError
      | _ \<Rightarrow> Inl TypeError)"

definition main_search_first :: "requests_get \<Rightarrow> json \<Rightarrow> json \<Rightarrow> error + json" where
  "main_search_first requests_get url query =
     and_then (get_swapi_resource requests_get url (Some (fmap_of_list [(''search'', query)])))
       (\<lambda>envelope.
     and_then (subscript envelope ''results'') first_item)"

section \<open>Problem set 9: New York Times articles\<close>

text \<open>
  A list comprehension \<open>[e for x in xs if c]\<close> whose condition or element expression may
  raise: the body returns \<open>None\<close> for an element that the condition drops. The elements
  are visited in order and the first exception ends the comprehension.
\<close>

fun comprehension :: "('a \<Rightarrow> error + 'b option) \<Rightarrow> 'a list \<Rightarrow> error + 'b list" where
  "comprehension body [] = Inr []"
| "comprehension body (x # xs) =
     and_then (body x) (\<lambda>y.
     and_then (comprehension body xs) (\<lambda>ys.
       Inr (case y of None \<Rightarrow> ys | Some v \<Rightarrow> v # ys)))"

text \<open>
  \<open>datetime.strptime(value, "%Y-%m-%dT%H:%M:%S%z")\<close>: the library parser is a parameter,
  \<open>None\<close> where it rejects the string with a \<open>ValueError\<close>. A value that is not a string
  is refused with a \<open>TypeError\<close> before any parsing.
\<close>

type_synonym strptime = "string \<Rightarrow> datetime option"

fun py_strptime :: "strptime \<Rightarrow> json \<Rightarrow> error + json" where
  "py_strptime strptime (JStr s) =
     (case strptime s of None \<Rightarrow> Inl ValueError | Some d \<Rightarrow> Inr (JDatetime d))"
| "py_strptime strptime v = Inl TypeError"

text \<open>
  The inner loop of \<open>convert_published_date_value\<close> over the items of one article; the
  article is updated in place while its items are visited.
\<close>

fun convert_items :: "strptime \<Rightarrow> dict \<Rightarrow> (string \<times> json) list \<Rightarrow> error + dict" where
  "convert_items strptime article [] = Inr article"
| "convert_items strptime article ((key, val) # items) =
     (if key = ''pub_date'' then
        and_then (py_strptime strptime val) (\<lambda>d.
          convert_items strptime (fmupd key d article) items)
      else convert_items strptime article items)"

fun convert_published_date_value :: "strptime \<Rightarrow> dict list \<Rightarrow> error + dict list" where
  "convert_published_date_value strptime [] = Inr []"
| "convert_published_date_value strptime (article # data) =
     and_then (convert_items strptime article (dict_items article)) (\<lambda>article'.
     and_then (convert_published_date_value strptime data) (\<lambda>data'.
       Inr (article' # data')))"


definition filter_articles :: "dict list \<Rightarrow> string list \<Rightarrow> dict list" where
  "filter_articles data keys_to_exclude =
     map (\<lambda>article.
       fmap_of_list (filter (\<lambda>(k, v). k \<notin> set keys_to_exclude) (dict_items article))) data"

text \<open>
  \<open>str.title()\<close> is a parameter of the two functions that format an author's name; an
  object that is not a string has no such method.
\<close>

fun py_title :: "(string \<Rightarrow> string) \<Rightarrow> json \<Rightarrow> error + string" where
  "py_title title (JStr s) = Inr (title s)"
| "py_title title v = Inl AttributeError"

definition format_author_name :: "(string \<Rightarrow> string) \<Rightarrow> json \<Rightarrow> error + json" where
  "format_author_name title person =
     and_then (subscript person ''lastname'') (\<lambda>lastname.
     and_then (py_title title lastname) (\<lambda>last.
     and_then (subscript person ''firstname'') (\<lambda>firstname.
     and_then (py_title title firstname) (\<lambda>first.
       Inr (JStr (last @ '', '' @ first))))))"

definition get_author_names :: "(string \<Rightarrow> string) \<Rightarrow> dict \<Rightarrow> error + json list" where
  "get_author_names title article =
     and_then (dict_subscript article ''byline'') (\<lambda>byline.
     and_then (subscript byline ''person'') (\<lambda>persons.
     and_then (py_iter persons)
       (comprehension (\<lambda>person.
          and_then (format_author_name title person) (\<lambda>name. Inr (Some name))))))"

definition get_organization_names :: "dict \<Rightarrow> error + json list" where
  "get_organization_names article =
     and_then (py_iter (dict_get article ''keywords'' (JList [])))
       (comprehension (\<lambda>keyword.
          and_then (subscript keyword ''name'') (\<lambda>name.
            if py_eq name (JStr ''organizations'')
            then and_then (subscript keyword ''value'') (\<lambda>v. Inr (Some v))
            else Inr None)))"



definition remove_empty_keywords_articles :: "dict list \<Rightarrow> error + dict list" where
  "remove_empty_keywords_articles data =
     comprehension (\<lambda>article.
       and_then (dict_subscript article ''keywords'') (\<lambda>keywords.
         Inr (if truthy keywords then Some article else None))) data"

text \<open>
  The two accumulation loops of \<open>main\<close>. Each starts from the empty list; the first
  argument is the list accumulated so far.
\<close>

fun add_organizations :: "json list \<Rightarrow> json list \<Rightarrow> json list" where
  "add_organizations tech_organizations [] = tech_organizations"
| "add_organizations tech_organizations (name # org_names) =
     add_organizations
       (if \<not> py_in name tech_organizations then tech_organizations @ [name]
        else tech_organizations) org_names"

fun tech_organizations_loop :: "json list \<Rightarrow> dict list \<Rightarrow> error + json list" where
  "tech_organizations_loop tech_organizations [] = Inr tech_organizations"
| "tech_organizations_loop tech_organizations (article # nyt_tech) =
     and_then (get_organization_names article) (\<lambda>org_names.
       tech_organizations_loop
         (if org_names \<noteq> [] then add_organizations tech_organizations org_names
          else tech_organizations) nyt_tech)"

fun add_authors :: "json list \<Rightarrow> json list \<Rightarrow> json list" where
  "add_authors unique_authors [] = unique_authors"
| "add_authors unique_authors (author # authors) =
     add_authors
       (if author \<noteq> JNull \<and> \<not> py_in author unique_authors then unique_authors @ [author]
        else unique_authors) authors"

fun unique_authors_loop ::
  "(string \<Rightarrow> string) \<Rightarrow> json list \<Rightarrow> dict list \<Rightarrow> error + json list" where
  "unique_authors_loop title unique_authors [] = Inr unique_authors"
| "unique_authors_loop title unique_authors (article # nyt_tech) =
     and_then (get_author_names title article) (\<lambda>authors.
       unique_authors_loop title
         (if authors \<noteq> [] then add_authors unique_authors authors
          else unique_authors) nyt_tech)"

section \<open>Observations and scenario data\<close>

text \<open>
  The items of a bucket of a record: the list stored under the key, empty when the key is
  absent. \<open>holds_list\<close> says that a key, when present, stores a list, which is what
  \<open>append\<close> needs.
\<close>

definition bucket :: "dict \<Rightarrow> string \<Rightarrow> json list" where
  "bucket d key = (case fmlookup d key of Some (JList xs) \<Rightarrow> xs | _ \<Rightarrow> [])"

definition holds_list :: "dict \<Rightarrow> string \<Rightarrow> bool" where
  "holds_list d key =
     (case fmlookup d key of
        None \<Rightarrow> True
      | Some v \<Rightarrow> (case v of JList xs \<Rightarrow> True | _ \<Rightarrow> False))"

text \<open>
  The input that the docstring of \<open>convert_published_date_value\<close> assumes: every
  \<open>pub_date\<close> that is present is a string that the parser accepts.
\<close>

definition pub_dates_parse :: "strptime \<Rightarrow> dict list \<Rightarrow> bool" where
  "pub_dates_parse strptime data =
     (\<forall>article \<in> set data.
        case fmlookup article ''pub_date'' of
          None \<Rightarrow> True
        | Some v \<Rightarrow> (case v of JStr s \<Rightarrow> strptime s \<noteq> None | _ \<Rightarrow> False))"


text \<open>No element of the list equals (\<open>==\<close>) an element before it.\<close>

definition no_equal_pair :: "json list \<Rightarrow> bool" where
  "no_equal_pair xs = (\<forall>j < length xs. \<forall>i < j. \<not> py_eq (xs ! i) (xs ! j))"

text \<open>
  The planet of the two assertions in \<open>main\<close>, the envelope in which a search returns
  it (\<open>get_swapi_resource\<close> documents the envelope with its \<open>results\<close> list), and a
  server that knows this planet only: a search on the planets endpoint returns the
  envelope, the planet's own URL returns the planet, and every other request fails.
\<close>

definition tatooine :: dict where
  "tatooine = fmap_of_list
     [(''name'', JStr ''Tatooine''),
      (''diameter'', JStr ''10465''),
      (''climate'', JStr ''arid''),
      (''terrain'', JStr ''desert''),
      (''population'', JStr ''200000'')]"

definition tatooine_envelope :: json where
  "tatooine_envelope = JObj (fmap_of_list
     [(''count'', JNum 1),
      (''next'', JNull),
      (''previous'', JNull),
      (''results'', JList [JObj tatooine])])"

definition planets_endpoint :: json where
  "planets_endpoint = JStr ''https://swapi.py4e.com/api/planets/''"

definition tatooine_url :: json where
  "tatooine_url = JStr ''https://swapi.py4e.com/api/planets/1/''"

definition swapi_planets :: requests_get where
  "swapi_planets url params =
     (if url = planets_endpoint \<and> params \<noteq> None then Inr tatooine_envelope
      else if url = tatooine_url \<and> params = None then Inr (JObj tatooine)
      else Inl RequestException)"

text \<open>A person record as the people endpoint returns it, cut down to four fields.\<close>

definition c3po :: dict where
  "c3po = fmap_of_list
     [(''name'', JStr ''C-3PO''),
      (''height'', JStr ''167''),
      (''gender'', JStr ''n/a''),
      (''homeworld'', tatooine_url)]"

text \<open>
  A parser that knows one timestamp: \<open>2022-07-26T09:00:09+0000\<close> is 1658826009 seconds
  after the epoch, at offset zero.
\<close>

definition nyt_strptime :: strptime where
  "nyt_strptime s =
     (if s = ''2022-07-26T09:00:09+0000'' then Some (Datetime 1658826009 0) else None)"

section \<open>Basic facts\<close>

lemma and_then_simps [simp]:
  "and_then (Inl e) f = Inl e"
  "and_then (Inr x) f = f x"
  by (simp_all add: and_then_def)

lemma and_then_Inr [simp]: "and_then r Inr = r"
  by (cases r) simp_all

lemma and_then_eq_Inr:
  "and_then r f = Inr y \<longleftrightarrow> (\<exists>x. r = Inr x \<and> f x = Inr y)"
  by (cases r) simp_all

lemma fmupd_not_empty [simp]: "fmupd key v d \<noteq> fmempty"
proof
  assume "fmupd key v d = fmempty"
  then have "fmlookup (fmupd key v d) key = fmlookup fmempty key"
    by simp
  then show False
    by simp
qed

subsection \<open>The items of a dictionary\<close>

lemma map_of_dict_items: "map_of (dict_items d) = fmlookup d"
proof
  fix k
  show "map_of (dict_items d) k = fmlookup d k"
    by (cases "fmlookup d k")
      (auto simp: dict_items_def map_of_map_restrict restrict_map_def fmlookup_dom_iff)
qed

lemma distinct_dict_items: "distinct (map fst (dict_items d))"
  by (simp add: dict_items_def comp_def sorted_list_of_fset.rep_eq)

lemma fmap_of_list_dict_items: "fmap_of_list (dict_items d) = d"
  by (rule fmap_ext) (simp add: fmlookup_of_list map_of_dict_items)

lemma dict_items_iff: "(k, v) \<in> set (dict_items d) \<longleftrightarrow> fmlookup d k = Some v"
  using map_of_eq_Some_iff [OF distinct_dict_items, of d k v]
  by (simp add: map_of_dict_items)

subsection \<open>Comprehensions\<close>





subsection \<open>Requests\<close>

lemma get_swapi_resource_search [simp]:
  "get_swapi_resource requests_get url (Some (fmupd key v d)) =
     requests_get url (Some (fmupd key v d))"
  by (simp add: get_swapi_resource_def)

lemma get_swapi_resource_direct [simp]:
  "get_swapi_resource requests_get url None = requests_get url None"
  by (simp add: get_swapi_resource_def)

lemma tatooine_envelope_not_record: "tatooine_envelope \<noteq> JObj tatooine"
proof
  assume "tatooine_envelope = JObj tatooine"
  then have "tatooine = fmap_of_list
     [(''count'', JNum 1), (''next'', JNull), (''previous'', JNull),
      (''results'', JList [JObj tatooine])]"
    by (simp add: tatooine_envelope_def)
  then have "fmlookup tatooine ''count'' = fmlookup (fmap_of_list
     [(''count'', JNum 1), (''next'', JNull), (''previous'', JNull),
      (''results'', JList [JObj tatooine])]) ''count''"
    by (rule arg_cong)
  then show False
    by (simp add: tatooine_def)
qed

text \<open>A planet URL is fetched directly, and the body is thinned to the five fields.\<close>

lemma get_homeworld_by_url:
  "get_homeworld swapi_planets tatooine_url planets_endpoint = Inr tatooine"
  by (simp add: get_homeworld_def sublist_code swapi_planets_def tatooine_url_def
      planets_endpoint_def tatooine_def dict_get_def fmlookup_of_list)

section \<open>Resolving a homeworld\<close>

text \<open>
  When \<open>get_homeworld\<close> returns, its result carries the five planet fields and nothing
  else.
\<close>

lemma get_homeworld_keys:
  "get_homeworld requests_get identifier url = Inr homeworld \<Longrightarrow>
     fmdom' homeworld = {''name'', ''diameter'', ''climate'', ''terrain'', ''population''}"
  unfolding get_homeworld_def and_then_eq_Inr by auto

text \<open>
  Claim C1. For the identifier \<open>Tatooine\<close> and an endpoint whose search result for that
  name is the Tatooine record, \<open>get_homeworld\<close> should return that record. The code
  passes the search envelope itself to the five \<open>get\<close> calls, without taking
  \<open>["results"][0]\<close> as \<open>main\<close> does, so every field falls back to its default: the
  result holds five empty strings.
\<close>

theorem get_homeworld_by_name_returns_defaults:
  "get_homeworld swapi_planets (JStr ''Tatooine'') planets_endpoint =
     Inr (fmap_of_list
       [(''name'', JStr ''''),
        (''diameter'', JStr ''''),
        (''climate'', JStr ''''),
        (''terrain'', JStr ''''),
        (''population'', JStr '''')])"
  by (simp add: get_homeworld_def sublist_code swapi_planets_def tatooine_envelope_def
      dict_get_def fmlookup_of_list)

text \<open>
  Only a search that answered with the bare record, outside any envelope, would give the
  record back.
\<close>

lemma get_homeworld_bare_record:
  "requests_get url (Some (fmap_of_list [(''search'', JStr ''Tatooine'')])) = Inr (JObj tatooine)
     \<Longrightarrow> get_homeworld requests_get (JStr ''Tatooine'') url = Inr tatooine"
  by (simp add: get_homeworld_def sublist_code tatooine_def dict_get_def)

text \<open>
  Claim C3. The identifier should count as a URL exactly when it begins with
  \<open>https://\<close>, as the docstring of \<open>get_homeworld\<close> says. The code tests
  \<open>"https://" in identifier\<close>: an identifier that only contains the substring is fetched
  as a URL (and the request fails), although the search for it on the endpoint would have
  been answered.
\<close>

theorem get_homeworld_substring_is_url:
  "\<not> prefix ''https://'' ''Tatooine, see https://swapi.py4e.com'' \<and>
   get_homeworld swapi_planets (JStr ''Tatooine, see https://swapi.py4e.com'') planets_endpoint
     = Inl RequestException \<and>
   get_swapi_resource swapi_planets planets_endpoint
     (Some (fmap_of_list [(''search'', JStr ''Tatooine, see https://swapi.py4e.com'')]))
     = Inr tatooine_envelope"
  by (simp add: get_homeworld_def sublist_code swapi_planets_def tatooine_url_def
      planets_endpoint_def)

text \<open>
  The branch that \<open>get_homeworld\<close> takes on a string: the substring test decides, not
  the prefix test.
\<close>

lemma get_homeworld_branch:
  "get_homeworld requests_get (JStr s) url =
     and_then (if sublist ''https://'' s then requests_get (JStr s) None
               else requests_get url (Some (fmap_of_list [(''search'', JStr s)]))) (\<lambda>swapi_result.
     and_then (py_get swapi_result ''name'' (JStr '''')) (\<lambda>name.
     and_then (py_get swapi_result ''diameter'' (JStr '''')) (\<lambda>diameter.
     and_then (py_get swapi_result ''climate'' (JStr '''')) (\<lambda>climate.
     and_then (py_get swapi_result ''terrain'' (JStr '''')) (\<lambda>terrain.
     and_then (py_get swapi_result ''population'' (JStr '''')) (\<lambda>population.
       Inr (fmap_of_list
         [(''name'', name),
          (''diameter'', diameter),
          (''climate'', climate),
          (''terrain'', terrain),
          (''population'', population)])))))))"
  by (simp add: get_homeworld_def)

section \<open>The search envelope\<close>

text \<open>
  Claim C5 as stated fails: with a query, \<open>get_swapi_resource\<close> returns the envelope,
  whose \<open>results\<close> list holds the record, and not the record.
\<close>

theorem get_swapi_resource_returns_envelope:
  "get_swapi_resource swapi_planets planets_endpoint
     (Some (fmap_of_list [(''search'', JStr ''Tatooine'')])) = Inr tatooine_envelope \<and>
   subscript tatooine_envelope ''results'' = Inr (JList [JObj tatooine]) \<and>
   get_swapi_resource swapi_planets planets_endpoint
     (Some (fmap_of_list [(''search'', JStr ''Tatooine'')])) \<noteq> Inr (JObj tatooine)"
proof (intro conjI)
  show r: "get_swapi_resource swapi_planets planets_endpoint
     (Some (fmap_of_list [(''search'', JStr ''Tatooine'')])) = Inr tatooine_envelope"
    by (simp add: swapi_planets_def)
  show "subscript tatooine_envelope ''results'' = Inr (JList [JObj tatooine])"
    by (simp add: tatooine_envelope_def dict_subscript_def)
  show "get_swapi_resource swapi_planets planets_endpoint
     (Some (fmap_of_list [(''search'', JStr ''Tatooine'')])) \<noteq> Inr (JObj tatooine)"
    unfolding r using tatooine_envelope_not_record by simp
qed

text \<open>
  Claim C5, amended. For every URL and every query that is provided and not empty,
  \<open>get_swapi_resource\<close> returns the decoded body of the response as it is. When that body
  is an envelope whose \<open>results\<close> list is not empty, the function returns the envelope,
  and the first result is what the caller's \<open>["results"][0]\<close> takes out of it.
\<close>

theorem get_swapi_resource_body:
  "(params \<noteq> None \<and> params \<noteq> Some fmempty \<longrightarrow>
      get_swapi_resource requests_get url params = requests_get url params) \<and>
   (requests_get url (Some (fmap_of_list [(''search'', query)])) = Inr (JObj envelope) \<and>
    fmlookup envelope ''results'' = Some (JList (first # others)) \<longrightarrow>
      get_swapi_resource requests_get url (Some (fmap_of_list [(''search'', query)]))
        = Inr (JObj envelope) \<and>
      main_search_first requests_get url query = Inr first)"
  by (simp add: get_swapi_resource_def main_search_first_def dict_subscript_def first_item_def)

theorem get_swapi_resource_body_witness:
  "Some (fmap_of_list [(''search'', JStr ''Tatooine'')]) \<noteq> None \<and>
   Some (fmap_of_list [(''search'', JStr ''Tatooine'')]) \<noteq> Some fmempty \<and>
   get_swapi_resource swapi_planets planets_endpoint
     (Some (fmap_of_list [(''search'', JStr ''Tatooine'')])) = Inr tatooine_envelope \<and>
   main_search_first swapi_planets planets_endpoint (JStr ''Tatooine'') = Inr (JObj tatooine)"
  using get_swapi_resource_body [of "Some (fmap_of_list [(''search'', JStr ''Tatooine'')])"
      swapi_planets planets_endpoint "JStr ''Tatooine''"
      "fmap_of_list [(''count'', JNum 1), (''next'', JNull), (''previous'', JNull),
         (''results'', JList [JObj tatooine])]" "JObj tatooine" "[]"]
  by (simp add: swapi_planets_def tatooine_envelope_def fmlookup_of_list)

section \<open>Projecting a person and a starship\<close>

lemma create_person_eq_Inr:
  "create_person requests_get person url = Inr p \<longleftrightarrow>
     (\<exists>homeworld.
        get_homeworld requests_get (dict_get person ''homeworld'' JNull) url = Inr homeworld \<and>
        p = fmap_of_list
         [(''name'', dict_get person ''name'' (JStr '''')),
          (''height'', dict_get person ''height'' (JStr '''')),
          (''mass'', dict_get person ''mass'' (JStr '''')),
          (''birth_year'', dict_get person ''birth_year'' (JStr '''')),
          (''eye_color'', dict_get person ''eye_color'' (JStr '''')),
          (''homeworld'', JObj homeworld),
          (''dialogue'', JList [])])"
  unfolding create_person_def and_then_eq_Inr by auto

lemma create_person_c3po:
  "create_person swapi_planets c3po planets_endpoint = Inr (fmap_of_list
         [(''name'', JStr ''C-3PO''),
          (''height'', JStr ''167''),
          (''mass'', JStr ''''),
          (''birth_year'', JStr ''''),
          (''eye_color'', JStr ''''),
          (''homeworld'', JObj tatooine),
          (''dialogue'', JList [])])"
  by (simp add: create_person_def c3po_def dict_get_def get_homeworld_by_url)

text \<open>
  A person record without a \<open>homeworld\<close> hands \<open>None\<close> to \<open>get_homeworld\<close>, where
  \<open>"https://" in None\<close> raises.
\<close>

lemma create_person_without_homeworld:
  "fmlookup person ''homeworld'' = None \<Longrightarrow>
     create_person requests_get person url = Inl TypeError"
  by (simp add: create_person_def get_homeworld_def dict_get_def)

text \<open>
  Claim C2 as stated fails on two counts. A starship record that has a \<open>passengers\<close>
  field (the API gives the capacity there) does not keep its value: \<open>create_starship\<close>
  always stores the empty list. And \<open>create_person\<close> can raise: here on a person
  record that has no \<open>homeworld\<close>.
\<close>

theorem projector_counterexample:
  "fmlookup (fmap_of_list [(''name'', JStr ''CR90 corvette''), (''passengers'', JStr ''600'')])
     ''passengers'' = Some (JStr ''600'') \<and>
   fmlookup (create_starship
      (fmap_of_list [(''name'', JStr ''CR90 corvette''), (''passengers'', JStr ''600'')]))
     ''passengers'' = Some (JList []) \<and>
   create_person swapi_planets (fmap_of_list [(''name'', JStr ''Leia Organa'')])
     planets_endpoint = Inl TypeError"
  by (simp add: create_starship_def create_person_def get_homeworld_def dict_get_def)

text \<open>
  Claim C2, amended. \<open>create_starship\<close> always returns a record with exactly its five
  declared keys: \<open>name\<close>, \<open>model\<close>, \<open>max_atmosphering_speed\<close> and \<open>length\<close> hold the
  source value when the source has the key and the empty string otherwise, and
  \<open>passengers\<close> is the empty list whatever the source holds. \<open>create_person\<close> returns
  a record exactly when \<open>get_homeworld\<close> returns for the source's \<open>homeworld\<close> value;
  the record then has exactly the seven declared keys: \<open>name\<close>, \<open>height\<close>, \<open>mass\<close>,
  \<open>birth_year\<close> and \<open>eye_color\<close> hold the source value or the empty string,
  \<open>homeworld\<close> holds the resolved planet, and \<open>dialogue\<close> is the empty list.
\<close>

theorem projected_fields:
  "fmdom' (create_starship starship) =
     {''name'', ''model'', ''passengers'', ''max_atmosphering_speed'', ''length''} \<and>
   (\<forall>k \<in> {''name'', ''model'', ''max_atmosphering_speed'', ''length''}.
      fmlookup (create_starship starship) k =
        Some (case fmlookup starship k of Some v \<Rightarrow> v | None \<Rightarrow> JStr '''')) \<and>
   fmlookup (create_starship starship) ''passengers'' = Some (JList []) \<and>
   ((\<exists>p. create_person requests_get person url = Inr p) \<longleftrightarrow>
    (\<exists>hw. get_homeworld requests_get (dict_get person ''homeworld'' JNull) url = Inr hw)) \<and>
   (\<forall>p. create_person requests_get person url = Inr p \<longrightarrow>
      fmdom' p = {''name'', ''height'', ''mass'', ''birth_year'', ''eye_color'', ''homeworld'',
                 ''dialogue''} \<and>
      (\<forall>k \<in> {''name'', ''height'', ''mass'', ''birth_year'', ''eye_color''}.
         fmlookup p k = Some (case fmlookup person k of Some v \<Rightarrow> v | None \<Rightarrow> JStr '''')) \<and>
      (\<exists>hw. get_homeworld requests_get (dict_get person ''homeworld'' JNull) url = Inr hw \<and>
            fmlookup p ''homeworld'' = Some (JObj hw)) \<and>
      fmlookup p ''dialogue'' = Some (JList []))"
proof (intro conjI allI impI)
  show "fmdom' (create_starship starship) =
     {''name'', ''model'', ''passengers'', ''max_atmosphering_speed'', ''length''}"
    by (simp add: create_starship_def)
  show "\<forall>k \<in> {''name'', ''model'', ''max_atmosphering_speed'', ''length''}.
      fmlookup (create_starship starship) k =
        Some (case fmlookup starship k of Some v \<Rightarrow> v | None \<Rightarrow> JStr '''')"
    by (simp add: create_starship_def dict_get_def)
  show "fmlookup (create_starship starship) ''passengers'' = Some (JList [])"
    by (simp add: create_starship_def)
  show "(\<exists>p. create_person requests_get person url = Inr p) \<longleftrightarrow>
    (\<exists>hw. get_homeworld requests_get (dict_get person ''homeworld'' JNull) url = Inr hw)"
    by (auto simp: create_person_eq_Inr)
next
  fix p
  assume "create_person requests_get person url = Inr p"
  then obtain hw where
    hw: "get_homeworld requests_get (dict_get person ''homeworld'' JNull) url = Inr hw" and
    p: "p = fmap_of_list
         [(''name'', dict_get person ''name'' (JStr '''')),
          (''height'', dict_get person ''height'' (JStr '''')),
          (''mass'', dict_get person ''mass'' (JStr '''')),
          (''birth_year'', dict_get person ''birth_year'' (JStr '''')),
          (''eye_color'', dict_get person ''eye_color'' (JStr '''')),
          (''homeworld'', JObj hw),
          (''dialogue'', JList [])]"
    unfolding create_person_eq_Inr by blast
  show "fmdom' p = {''name'', ''height'', ''mass'', ''birth_year'', ''eye_color'', ''homeworld'',
                 ''dialogue''}"
    by (simp add: p)
  show "\<forall>k \<in> {''name'', ''height'', ''mass'', ''birth_year'', ''eye_color''}.
         fmlookup p k = Some (case fmlookup person k of Some v \<Rightarrow> v | None \<Rightarrow> JStr '''')"
    by (simp add: p dict_get_def)
  show "\<exists>hw. get_homeworld requests_get (dict_get person ''homeworld'' JNull) url = Inr hw \<and>
            fmlookup p ''homeworld'' = Some (JObj hw)"
    using hw by (simp add: p)
  show "fmlookup p ''dialogue'' = Some (JList [])"
    by (simp add: p)
qed

theorem projected_fields_witness:
  "(\<exists>p. create_person swapi_planets c3po planets_endpoint = Inr p \<and>
      fmdom' p = {''name'', ''height'', ''mass'', ''birth_year'', ''eye_color'', ''homeworld'',
                 ''dialogue''} \<and>
      fmlookup p ''name'' = Some (JStr ''C-3PO'') \<and>
      fmlookup p ''mass'' = Some (JStr '''') \<and>
      fmlookup p ''homeworld'' = Some (JObj tatooine)) \<and>
   fmlookup (create_starship (fmap_of_list [(''name'', JStr ''CR90 corvette'')])) ''name''
     = Some (JStr ''CR90 corvette'') \<and>
   fmlookup (create_starship (fmap_of_list [(''name'', JStr ''CR90 corvette'')])) ''length''
     = Some (JStr '''')"
  using projected_fields [of "fmap_of_list [(''name'', JStr ''CR90 corvette'')]"
      swapi_planets c3po planets_endpoint] create_person_c3po
  by (simp add: c3po_def)

section \<open>Boarding a starship\<close>

lemma py_append_eq_Inr:
  "py_append v x = Inr w \<longleftrightarrow> (\<exists>xs. v = JList xs \<and> w = JList (xs @ [x]))"
  by (cases v) auto

lemma board_starship_frame:
  "board_starship starship people = Inr s' \<Longrightarrow> k \<noteq> ''intruder'' \<Longrightarrow> k \<noteq> ''passengers''
     \<Longrightarrow> fmlookup s' k = fmlookup starship k"
proof (induction starship people rule: board_starship.induct)
  case (1 starship)
  then show ?case by simp
next
  case (2 starship person is_intruder people)
  then show ?case
    by (auto simp: and_then_eq_Inr split: if_splits)
qed

lemma board_starship_buckets:
  "board_starship starship people = Inr s' \<Longrightarrow>
     bucket s' ''intruder'' = bucket starship ''intruder'' @ map fst (filter snd people) \<and>
     bucket s' ''passengers'' =
       bucket starship ''passengers'' @ map fst (filter (\<lambda>p. \<not> snd p) people)"
proof (induction starship people rule: board_starship.induct)
  case (1 starship)
  then show ?case by simp
next
  case (2 starship person is_intruder people)
  then show ?case
    by (auto simp: and_then_eq_Inr py_append_eq_Inr bucket_def fmlookup_dom_iff
        split: if_splits)
qed

lemma board_starship_returns:
  "holds_list starship ''intruder'' \<Longrightarrow> holds_list starship ''passengers'' \<Longrightarrow>
     \<exists>s'. board_starship starship people = Inr s'"
proof (induction starship people rule: board_starship.induct)
  case (1 starship)
  then show ?case by simp
next
  case (2 starship person is_intruder people)
  then show ?case
    by (auto simp: holds_list_def fmlookup_dom_iff split: if_splits option.splits json.splits)
qed

lemma length_both_filters:
  "length (filter P xs) + length (filter (\<lambda>x. \<not> P x) xs) = length xs"
  by (induction xs) auto

text \<open>
  Claim C6. For every starship record whose two buckets, where present, are lists, and
  every list of (person, flag) pairs, \<open>board_starship\<close> returns, and whenever it returns
  the \<open>intruder\<close> bucket has grown by exactly the persons flagged true and the
  \<open>passengers\<close> bucket by exactly the others, each in input order: every item went to
  one bucket, and the two buckets together grew by the length of the input.
\<close>

theorem board_starship_partitions:
  "(holds_list starship ''intruder'' \<and> holds_list starship ''passengers''
      \<longrightarrow> (\<exists>s'. board_starship starship people = Inr s')) \<and>
   (\<forall>s'. board_starship starship people = Inr s' \<longrightarrow>
      bucket s' ''intruder'' = bucket starship ''intruder'' @ map fst (filter snd people) \<and>
      bucket s' ''passengers'' =
        bucket starship ''passengers'' @ map fst (filter (\<lambda>p. \<not> snd p) people) \<and>
      length (bucket s' ''intruder'') + length (bucket s' ''passengers'') =
        length (bucket starship ''intruder'') + length (bucket starship ''passengers'')
          + length people)"
proof (intro conjI impI allI)
  assume "holds_list starship ''intruder'' \<and> holds_list starship ''passengers''"
  then show "\<exists>s'. board_starship starship people = Inr s'"
    by (simp add: board_starship_returns)
next
  fix s'
  assume r: "board_starship starship people = Inr s'"
  show "bucket s' ''intruder'' = bucket starship ''intruder'' @ map fst (filter snd people)"
    using board_starship_buckets [OF r] by simp
  show "bucket s' ''passengers'' =
        bucket starship ''passengers'' @ map fst (filter (\<lambda>p. \<not> snd p) people)"
    using board_starship_buckets [OF r] by simp
  show "length (bucket s' ''intruder'') + length (bucket s' ''passengers'') =
        length (bucket starship ''intruder'') + length (bucket starship ''passengers'')
          + length people"
    using board_starship_buckets [OF r] length_both_filters [of snd people] by simp
qed

theorem board_starship_partitions_witness:
  "holds_list (create_starship fmempty) ''intruder'' \<and>
   holds_list (create_starship fmempty) ''passengers'' \<and>
   (\<exists>s'. board_starship (create_starship fmempty)
            [(JStr ''R2-D2'', False), (JStr ''Darth Vader'', True), (JStr ''C-3PO'', False)]
            = Inr s' \<and>
      bucket s' ''intruder'' = [JStr ''Darth Vader''] \<and>
      bucket s' ''passengers'' = [JStr ''R2-D2'', JStr ''C-3PO''])"
  using board_starship_partitions [of "create_starship fmempty"
      "[(JStr ''R2-D2'', False), (JStr ''Darth Vader'', True), (JStr ''C-3PO'', False)]"]
  by (simp add: holds_list_def bucket_def create_starship_def fmlookup_of_list)

text \<open>
  Claim C7. Boarding \<open>[(p1, False), (p2, True)]\<close> on a starship that nobody has
  boarded gives exactly the buckets \<open>"passengers": [p1]\<close> and \<open>"intruder": [p2]\<close>
  and leaves every other key as it was. This holds for the record without any key, for a
  record that has other keys but neither bucket, and for every record that
  \<open>create_starship\<close> returns, where \<open>passengers\<close> is present and empty and p1 is
  appended to it; on a record whose \<open>passengers\<close> list already holds persons, p1 is
  appended after them. Whatever the record and the list, every key other than the two
  bucket keys keeps its value.
\<close>

theorem board_starship_scenario:
  "board_starship fmempty [(p1, False), (p2, True)] =
     Inr (fmupd ''intruder'' (JList [p2]) (fmupd ''passengers'' (JList [p1]) fmempty)) \<and>
   (''intruder'' |\<notin>| fmdom starship \<and> ''passengers'' |\<notin>| fmdom starship \<longrightarrow>
      board_starship starship [(p1, False), (p2, True)] =
        Inr (fmupd ''intruder'' (JList [p2]) (fmupd ''passengers'' (JList [p1]) starship))) \<and>
   (''intruder'' |\<notin>| fmdom starship \<and> fmlookup starship ''passengers'' = Some (JList aboard)
      \<longrightarrow> board_starship starship [(p1, False), (p2, True)] =
        Inr (fmupd ''intruder'' (JList [p2])
              (fmupd ''passengers'' (JList (aboard @ [p1])) starship))) \<and>
   board_starship (create_starship source) [(p1, False), (p2, True)] =
     Inr (fmupd ''intruder'' (JList [p2])
           (fmupd ''passengers'' (JList [p1]) (create_starship source))) \<and>
   (\<forall>s' k. board_starship starship people = Inr s' \<longrightarrow>
      k \<noteq> ''intruder'' \<longrightarrow> k \<noteq> ''passengers'' \<longrightarrow> fmlookup s' k = fmlookup starship k)"
proof (intro conjI impI allI)
  show "board_starship fmempty [(p1, False), (p2, True)] =
     Inr (fmupd ''intruder'' (JList [p2]) (fmupd ''passengers'' (JList [p1]) fmempty))"
    by simp
next
  assume "''intruder'' |\<notin>| fmdom starship \<and> ''passengers'' |\<notin>| fmdom starship"
  then show "board_starship starship [(p1, False), (p2, True)] =
        Inr (fmupd ''intruder'' (JList [p2]) (fmupd ''passengers'' (JList [p1]) starship))"
    by simp
next
  assume "''intruder'' |\<notin>| fmdom starship \<and>
    fmlookup starship ''passengers'' = Some (JList aboard)"
  then show "board_starship starship [(p1, False), (p2, True)] =
        Inr (fmupd ''intruder'' (JList [p2])
              (fmupd ''passengers'' (JList (aboard @ [p1])) starship))"
    by (simp add: fmlookup_dom_iff)
next
  show "board_starship (create_starship source) [(p1, False), (p2, True)] =
     Inr (fmupd ''intruder'' (JList [p2])
           (fmupd ''passengers'' (JList [p1]) (create_starship source)))"
    by (simp add: create_starship_def)
next
  fix s' k
  assume "board_starship starship people = Inr s'" "k \<noteq> ''intruder''" "k \<noteq> ''passengers''"
  then show "fmlookup s' k = fmlookup starship k"
    by (rule board_starship_frame)
qed


theorem board_starship_scenario_witness:
  "(\<exists>s'. board_starship (create_starship (fmap_of_list [(''name'', JStr ''CR90 corvette'')]))
            [(JStr ''R2-D2'', False), (JStr ''Darth Vader'', True)] = Inr s' \<and>
      fmlookup s' ''passengers'' = Some (JList [JStr ''R2-D2'']) \<and>
      fmlookup s' ''intruder'' = Some (JList [JStr ''Darth Vader'']) \<and>
      fmlookup s' ''name'' = Some (JStr ''CR90 corvette'')) \<and>
   board_starship (fmap_of_list [(''name'', JStr ''CR90 corvette'')])
     [(JStr ''R2-D2'', False), (JStr ''Darth Vader'', True)] =
     Inr (fmupd ''intruder'' (JList [JStr ''Darth Vader''])
           (fmupd ''passengers'' (JList [JStr ''R2-D2''])
             (fmap_of_list [(''name'', JStr ''CR90 corvette'')]))) \<and>
   board_starship (fmap_of_list [(''passengers'', JList [JStr ''C-3PO''])])
     [(JStr ''R2-D2'', False), (JStr ''Darth Vader'', True)] =
     Inr (fmupd ''intruder'' (JList [JStr ''Darth Vader''])
           (fmupd ''passengers'' (JList [JStr ''C-3PO'', JStr ''R2-D2''])
             (fmap_of_list [(''passengers'', JList [JStr ''C-3PO''])])))"
proof (intro conjI)
  let ?source = "fmap_of_list [(''name'', JStr ''CR90 corvette'')]"
  let ?people = "[(JStr ''R2-D2'', False), (JStr ''Darth Vader'', True)]"
  let ?boarded = "fmupd ''intruder'' (JList [JStr ''Darth Vader''])
           (fmupd ''passengers'' (JList [JStr ''R2-D2'']) (create_starship ?source))"
  note created = board_starship_scenario [of "JStr ''R2-D2''" "JStr ''Darth Vader''"
      "create_starship ?source" "[]" ?source ?people]
  then have result: "board_starship (create_starship ?source) ?people = Inr ?boarded"
    by blast
  from created result have "fmlookup ?boarded ''name'' = fmlookup (create_starship ?source) ''name''"
    by simp
  then have "fmlookup ?boarded ''name'' = Some (JStr ''CR90 corvette'')"
    by (simp add: create_starship_def dict_get_def)
  with result show "\<exists>s'. board_starship (create_starship ?source) ?people = Inr s' \<and>
      fmlookup s' ''passengers'' = Some (JList [JStr ''R2-D2'']) \<and>
      fmlookup s' ''intruder'' = Some (JList [JStr ''Darth Vader'']) \<and>
      fmlookup s' ''name'' = Some (JStr ''CR90 corvette'')"
    by simp
  have neither: "''intruder'' |\<notin>| fmdom ?source \<and> ''passengers'' |\<notin>| fmdom ?source"
    by simp
  from board_starship_scenario [of "JStr ''R2-D2''" "JStr ''Darth Vader''" ?source] neither
  show "board_starship ?source ?people =
     Inr (fmupd ''intruder'' (JList [JStr ''Darth Vader''])
           (fmupd ''passengers'' (JList [JStr ''R2-D2'']) ?source))"
    by blast
  let ?manned = "fmap_of_list [(''passengers'', JList [JStr ''C-3PO''])]"
  have one: "''intruder'' |\<notin>| fmdom ?manned \<and>
      fmlookup ?manned ''passengers'' = Some (JList [JStr ''C-3PO''])"
    by simp
  from board_starship_scenario [of "JStr ''R2-D2''" "JStr ''Darth Vader''" ?manned
      "[JStr ''C-3PO'']"] one
  show "board_starship ?manned ?people =
     Inr (fmupd ''intruder'' (JList [JStr ''Darth Vader''])
           (fmupd ''passengers'' (JList [JStr ''C-3PO'', JStr ''R2-D2'']) ?manned))"
    by simp
qed

section \<open>Absent fields in the article functions\<close>


text \<open>
  \<open>remove_empty_keywords_articles\<close> subscripts \<open>article["keywords"]\<close>, where
  \<open>get_news_by_location\<close> and \<open>get_organization_names\<close> read the same field with a
  default.
\<close>

lemma remove_empty_keywords_articles_missing:
  "fmlookup article ''keywords'' = None \<Longrightarrow>
     remove_empty_keywords_articles (article # data) = Inl KeyError"
  by (simp add: remove_empty_keywords_articles_def dict_subscript_def)









section \<open>Accumulating unique values\<close>

lemma py_in_iff: "py_in x xs \<longleftrightarrow> (\<exists>i < length xs. py_eq (xs ! i) x)"
  unfolding py_in_def list_ex_iff by (metis in_set_conv_nth)

lemma no_equal_pair_snoc:
  assumes "no_equal_pair xs" "\<not> py_in x xs"
  shows "no_equal_pair (xs @ [x])"
  unfolding no_equal_pair_def
proof (intro allI impI)
  fix j i
  assume j: "j < length (xs @ [x])" and i: "i < j"
  show "\<not> py_eq ((xs @ [x]) ! i) ((xs @ [x]) ! j)"
  proof (cases "j < length xs")
    case True
    with i assms(1) show ?thesis
      by (simp add: no_equal_pair_def nth_append)
  next
    case False
    with j have "j = length xs" by simp
    with i assms(2) show ?thesis
      by (auto simp: py_in_iff nth_append)
  qed
qed

lemma add_organizations_guard:
  "(if names \<noteq> [] then add_organizations acc names else acc) = add_organizations acc names"
  by (cases names) simp_all

lemma add_authors_guard:
  "(if authors \<noteq> [] then add_authors acc authors else acc) = add_authors acc authors"
  by (cases authors) simp_all

text \<open>Both loops keep the accumulated list free of equal elements.\<close>

lemma add_organizations_no_equal_pair:
  "no_equal_pair acc \<Longrightarrow> no_equal_pair (add_organizations acc names)"
  by (induction acc names rule: add_organizations.induct) (simp_all add: no_equal_pair_snoc)

lemma add_authors_no_equal_pair:
  "no_equal_pair acc \<Longrightarrow> no_equal_pair (add_authors acc authors)"
  by (induction acc authors rule: add_authors.induct) (simp_all add: no_equal_pair_snoc)

lemma tech_organizations_loop_no_equal_pair:
  "tech_organizations_loop acc nyt_tech = Inr out \<Longrightarrow> no_equal_pair acc
     \<Longrightarrow> no_equal_pair out"
  by (induction acc nyt_tech rule: tech_organizations_loop.induct)
    (auto simp: and_then_eq_Inr add_organizations_no_equal_pair add_organizations_guard)

lemma unique_authors_loop_no_equal_pair:
  "unique_authors_loop title acc nyt_tech = Inr out \<Longrightarrow> no_equal_pair acc
     \<Longrightarrow> no_equal_pair out"
  by (induction title acc nyt_tech rule: unique_authors_loop.induct)
    (auto simp: and_then_eq_Inr add_authors_no_equal_pair add_authors_guard)

text \<open>
  Both loops only append: what was accumulated stays where it is, so the elements appear
  in the order in which they were first seen.
\<close>

lemma add_organizations_prefix: "prefix acc (add_organizations acc names)"
  by (induction acc names rule: add_organizations.induct) (auto dest: append_prefixD)

lemma add_authors_prefix: "prefix acc (add_authors acc authors)"
  by (induction acc authors rule: add_authors.induct) (auto dest: append_prefixD)

lemma add_organizations_first_seen:
  "a \<noteq> b \<Longrightarrow> a \<noteq> c \<Longrightarrow> b \<noteq> c \<Longrightarrow>
     add_organizations [] [JStr a, JStr b, JStr a, JStr c] = [JStr a, JStr b, JStr c]"
  by (simp add: py_in_def)

lemma add_authors_first_seen:
  "a \<noteq> b \<Longrightarrow> a \<noteq> c \<Longrightarrow> b \<noteq> c \<Longrightarrow>
     add_authors [] [JStr a, JStr b, JStr a, JStr c] = [JStr a, JStr b, JStr c]"
  by (simp add: py_in_def)

text \<open>The authors loop tests \<open>author is not None\<close> and never accumulates a null.\<close>

lemma add_authors_no_null: "JNull \<notin> set acc \<Longrightarrow> JNull \<notin> set (add_authors acc authors)"
  by (induction acc authors rule: add_authors.induct) auto

lemma unique_authors_loop_no_null:
  "unique_authors_loop title acc nyt_tech = Inr out \<Longrightarrow> JNull \<notin> set acc
     \<Longrightarrow> JNull \<notin> set out"
  by (induction title acc nyt_tech rule: unique_authors_loop.induct)
    (auto simp: and_then_eq_Inr add_authors_no_null add_authors_guard)

text \<open>
  Claim C8. The two accumulation loops should skip null values. The authors loop does; the
  organizations loop has no such test: for an article whose organization keywords hold
  the values \<open>null\<close>, \<open>Apple Inc\<close>, \<open>null\<close>, it accumulates the null once, where
  the authors loop on the same values leaves it out.
\<close>

theorem tech_organizations_keep_null:
  "get_organization_names
     (fmap_of_list [(''keywords'', JList
        [JObj (fmap_of_list [(''name'', JStr ''organizations''), (''value'', JNull)]),
         JObj (fmap_of_list [(''name'', JStr ''organizations''), (''value'', JStr ''Apple Inc'')]),
         JObj (fmap_of_list [(''name'', JStr ''organizations''), (''value'', JNull)])])])
     = Inr [JNull, JStr ''Apple Inc'', JNull] \<and>
   tech_organizations_loop []
     [fmap_of_list [(''keywords'', JList
        [JObj (fmap_of_list [(''name'', JStr ''organizations''), (''value'', JNull)]),
         JObj (fmap_of_list [(''name'', JStr ''organizations''), (''value'', JStr ''Apple Inc'')]),
         JObj (fmap_of_list [(''name'', JStr ''organizations''), (''value'', JNull)])])]]
     = Inr [JNull, JStr ''Apple Inc''] \<and>
   add_authors [] [JNull, JStr ''Apple Inc'', JNull] = [JStr ''Apple Inc'']"
  by (simp add: get_organization_names_def dict_get_def dict_subscript_def py_in_def)

section \<open>Filtering with nothing excluded\<close>

text \<open>
  Claim C9. For every collection of records, \<open>filter_articles\<close> with an empty list of
  excluded keys returns the collection itself: the same records, each with all of its
  keys and values, in the same order.
\<close>

theorem filter_articles_nothing_excluded: "filter_articles data [] = data"
  by (simp add: filter_articles_def fmap_of_list_dict_items map_idI)

section \<open>Converting the publication date\<close>

lemma convert_items_frame:
  "convert_items strptime article items = Inr article' \<Longrightarrow> k \<noteq> ''pub_date''
     \<Longrightarrow> fmlookup article' k = fmlookup article k"
  by (induction strptime article items rule: convert_items.induct)
    (auto simp: and_then_eq_Inr split: if_splits)

lemma convert_items_no_pub_date:
  "''pub_date'' \<notin> fst ` set items \<Longrightarrow> convert_items strptime article items = Inr article"
  by (induction strptime article items rule: convert_items.induct) auto

lemma convert_items_returns:
  "\<forall>v. (''pub_date'', v) \<in> set items \<longrightarrow> (\<exists>s. v = JStr s \<and> strptime s \<noteq> None)
     \<Longrightarrow> \<exists>article'. convert_items strptime article items = Inr article'"
proof (induction strptime article items rule: convert_items.induct)
  case (1 strptime article)
  then show ?case by simp
next
  case (2 strptime article key val items)
  show ?case
  proof (cases "key = ''pub_date''")
    case True
    with "2.prems" obtain s d where v: "val = JStr s" "strptime s = Some d"
      by auto
    with True "2.IH"(1) [of "JDatetime d"] "2.prems" show ?thesis
      by simp
  next
    case False
    with "2.IH"(2) "2.prems" show ?thesis
      by simp
  qed
qed

lemma convert_article_unchanged:
  "fmlookup article ''pub_date'' = None \<Longrightarrow>
     convert_items strptime article (dict_items article) = Inr article"
  by (rule convert_items_no_pub_date) (auto simp: dict_items_iff)

lemma convert_published_date_value_frame:
  "convert_published_date_value strptime data = Inr data' \<Longrightarrow>
     list_all2 (\<lambda>article article'.
        (\<forall>k. k \<noteq> ''pub_date'' \<longrightarrow> fmlookup article' k = fmlookup article k) \<and>
        (fmlookup article ''pub_date'' = None \<longrightarrow> article' = article)) data data'"
proof (induction data arbitrary: data')
  case Nil
  then show ?case by simp
next
  case (Cons article data)
  from Cons.prems obtain article' rest where
    a: "convert_items strptime article (dict_items article) = Inr article'" and
    r: "convert_published_date_value strptime data = Inr rest" and
    d: "data' = article' # rest"
    by (auto simp: and_then_eq_Inr)
  have "\<forall>k. k \<noteq> ''pub_date'' \<longrightarrow> fmlookup article' k = fmlookup article k"
    using convert_items_frame [OF a] by blast
  moreover have "fmlookup article ''pub_date'' = None \<longrightarrow> article' = article"
    using a convert_article_unchanged [of article strptime] by auto
  ultimately show ?case
    using Cons.IH [OF r] d by simp
qed

lemma convert_published_date_value_returns:
  "pub_dates_parse strptime data \<Longrightarrow>
     \<exists>data'. convert_published_date_value strptime data = Inr data'"
proof (induction data)
  case Nil
  then show ?case by simp
next
  case (Cons article data)
  have "\<forall>v. (''pub_date'', v) \<in> set (dict_items article) \<longrightarrow>
      (\<exists>s. v = JStr s \<and> strptime s \<noteq> None)"
    using Cons.prems
    by (auto simp: pub_dates_parse_def dict_items_iff split: json.splits)
  then obtain article' where
    "convert_items strptime article (dict_items article) = Inr article'"
    using convert_items_returns by blast
  moreover from Cons have "\<exists>data'. convert_published_date_value strptime data = Inr data'"
    by (simp add: pub_dates_parse_def)
  ultimately show ?case
    by auto
qed

text \<open>
  Claim C10. For every list of article records whose \<open>pub_date\<close> values, where present,
  are strings that the parser accepts, \<open>convert_published_date_value\<close> returns a list;
  and whenever it returns, the list has the length and the order of the input, every key
  other than \<open>pub_date\<close> has in each record the value it had, and a record without
  \<open>pub_date\<close> is returned as it was.
\<close>

theorem convert_published_date_value_rewrites_only_pub_date:
  "(pub_dates_parse strptime data \<longrightarrow>
      (\<exists>data'. convert_published_date_value strptime data = Inr data')) \<and>
   (\<forall>data'. convert_published_date_value strptime data = Inr data' \<longrightarrow>
      length data' = length data \<and>
      (\<forall>i < length data.
         (\<forall>k. k \<noteq> ''pub_date'' \<longrightarrow> fmlookup (data' ! i) k = fmlookup (data ! i) k) \<and>
         (fmlookup (data ! i) ''pub_date'' = None \<longrightarrow> data' ! i = data ! i)))"
proof (intro conjI impI allI)
  assume "pub_dates_parse strptime data"
  then show "\<exists>data'. convert_published_date_value strptime data = Inr data'"
    by (rule convert_published_date_value_returns)
next
  fix data'
  assume "convert_published_date_value strptime data = Inr data'"
  from convert_published_date_value_frame [OF this]
  show "length data' = length data"
    by (simp add: list_all2_lengthD)
next
  fix data' i k
  assume "convert_published_date_value strptime data = Inr data'" "i < length data"
    "k \<noteq> ''pub_date''"
  with convert_published_date_value_frame [of strptime data data']
  show "fmlookup (data' ! i) k = fmlookup (data ! i) k"
    by (simp add: list_all2_conv_all_nth)
next
  fix data' i
  assume "convert_published_date_value strptime data = Inr data'" "i < length data"
    "fmlookup (data ! i) ''pub_date'' = None"
  with convert_published_date_value_frame [of strptime data data']
  show "data' ! i = data ! i"
    by (simp add: list_all2_conv_all_nth)
qed

theorem convert_published_date_value_rewrites_only_pub_date_witness:
  "pub_dates_parse nyt_strptime
     [fmap_of_list [(''pub_date'', JStr ''2022-07-26T09:00:09+0000''), (''web_url'', JStr ''u'')],
      fmap_of_list [(''web_url'', JStr ''v'')]] \<and>
   (\<exists>data'. convert_published_date_value nyt_strptime
       [fmap_of_list [(''pub_date'', JStr ''2022-07-26T09:00:09+0000''), (''web_url'', JStr ''u'')],
        fmap_of_list [(''web_url'', JStr ''v'')]] = Inr data' \<and>
      length data' = 2 \<and>
      fmlookup (data' ! 0) ''web_url'' = Some (JStr ''u'') \<and>
      data' ! 1 = fmap_of_list [(''web_url'', JStr ''v'')])"
proof -
  let ?data =
    "[fmap_of_list [(''pub_date'', JStr ''2022-07-26T09:00:09+0000''), (''web_url'', JStr ''u'')],
      fmap_of_list [(''web_url'', JStr ''v'')]]"
  note claim = convert_published_date_value_rewrites_only_pub_date [of nyt_strptime ?data]
  have parse: "pub_dates_parse nyt_strptime ?data"
    by (simp add: pub_dates_parse_def nyt_strptime_def)
  with claim obtain data' where r: "convert_published_date_value nyt_strptime ?data = Inr data'"
    by blast
  with claim have frame: "length data' = length ?data \<and>
      (\<forall>i < length ?data.
         (\<forall>k. k \<noteq> ''pub_date'' \<longrightarrow> fmlookup (data' ! i) k = fmlookup (?data ! i) k) \<and>
         (fmlookup (?data ! i) ''pub_date'' = None \<longrightarrow> data' ! i = ?data ! i))"
    by blast
  then have "length data' = 2"
    by simp
  moreover from frame have "fmlookup (data' ! 0) ''web_url'' = fmlookup (?data ! 0) ''web_url''"
    by simp
  then have "fmlookup (data' ! 0) ''web_url'' = Some (JStr ''u'')"
    by simp
  moreover from frame have "fmlookup (?data ! 1) ''pub_date'' = None \<longrightarrow> data' ! 1 = ?data ! 1"
    by simp
  then have "data' ! 1 = fmap_of_list [(''web_url'', JStr ''v'')]"
    by simp
  ultimately show ?thesis
    using parse r by blast
qed

end
